theory Spec2Isabelle
  imports Main "HOL-Library.AList" "HOL-Library.Multiset"
begin

section \<open>The JavaScript bulk downloader \<^verbatim>\<open>src/dl/js_download.py\<close>\<close>

text \<open>
  A Python \<^verbatim>\<open>str\<close> is modelled as a \<^typ>\<open>string\<close>, one \<^typ>\<open>char\<close> per code
  point; the model therefore covers the texts whose code points lie below 256.  Library
  functions the program calls (\<^verbatim>\<open>re.sub\<close>, \<^verbatim>\<open>str.strip\<close>, \<^verbatim>\<open>str.split\<close>,
  \<^verbatim>\<open>os.path.join\<close>, \<^verbatim>\<open>os.path.splitext\<close>, \<^verbatim>\<open>urlparse\<close>) are written out
  after CPython 3.11 on a POSIX system.
\<close>

subsection \<open>String helpers of the Python library\<close>

text \<open>\<^verbatim>\<open>s.strip(c)\<close> for a one-character argument.\<close>

definition strip_char :: "char \<Rightarrow> string \<Rightarrow> string" where
  "strip_char c s = rev (dropWhile (\<lambda>x. x = c) (rev (dropWhile (\<lambda>x. x = c) s)))"

text \<open>\<^verbatim>\<open>s.split(c)\<close> for a one-character separator: never the empty list.\<close>

fun split_on :: "char \<Rightarrow> string \<Rightarrow> string list" where
  "split_on c [] = [[]]"
| "split_on c (x # xs) =
     (if x = c then [] # split_on c xs
      else (case split_on c xs of
              [] \<Rightarrow> [[x]]
            | p # ps \<Rightarrow> (x # p) # ps))"

text \<open>\<^verbatim>\<open>s.endswith(t)\<close> and \<^verbatim>\<open>s.startswith(t)\<close>.\<close>

definition endswith :: "string \<Rightarrow> string \<Rightarrow> bool" where
  "endswith s t = (length t \<le> length s \<and> drop (length s - length t) s = t)"

definition startswith :: "string \<Rightarrow> string \<Rightarrow> bool" where
  "startswith s t = (take (length t) s = t)"

subsection \<open>The sanitizer\<close>

text \<open>The character class \<^verbatim>\<open>[<>:"|?*]\<close> of \<^verbatim>\<open>sanitize_filename\<close>.\<close>

definition illegal_chars :: "char set" where
  "illegal_chars = {CHR ''<'', CHR ''>'', CHR '':'', CHR 0x22, CHR ''|'', CHR ''?'', CHR ''*''}"

text \<open>
  \<^verbatim>\<open>re.sub(r'[<>:"|?*]', '_', filename)\<close>: every match is one character, and the
  replacement is one character, so the substitution works character by character.
\<close>

definition sanitize_filename :: "string \<Rightarrow> string" where
  "sanitize_filename filename =
     map (\<lambda>c. if c \<in> illegal_chars then CHR ''_'' else c) filename"

subsection \<open>Exceptions\<close>

text \<open>
  The three classes the handlers of \<^verbatim>\<open>download_js\<close> tell apart, most specific first:
  \<^verbatim>\<open>requests.exceptions.Timeout\<close>, any other \<^verbatim>\<open>requests.exceptions.RequestException\<close>
  (with its message), and any other \<^verbatim>\<open>Exception\<close> (\<^verbatim>\<open>ValueError\<close>, \<^verbatim>\<open>OSError\<close>, ...).
  These are the exceptions that the calls of the worker raise.  What is not an
  \<^verbatim>\<open>Exception\<close> (\<^verbatim>\<open>KeyboardInterrupt\<close>, \<^verbatim>\<open>SystemExit\<close>) reaches the main thread, not a
  worker, and is not modelled.
\<close>

datatype exn = Timeout | RequestException string | OtherException string

subsection \<open>\<^verbatim>\<open>urllib.parse.urlparse\<close>\<close>

definition scheme_chars :: string where
  "scheme_chars = ''abcdefghijklmnopqrstuvwxyzABCDEFGHIJKLMNOPQRSTUVWXYZ0123456789+-.''"

definition ascii_letters :: string where
  "ascii_letters = ''abcdefghijklmnopqrstuvwxyzABCDEFGHIJKLMNOPQRSTUVWXYZ''"

definition uses_params :: "string list" where
  "uses_params = ['''', ''ftp'', ''hdl'', ''prospero'', ''http'', ''imap'', ''https'', ''shttp'',
     ''rtsp'', ''rtsps'', ''rtspu'', ''sip'', ''sips'', ''mms'', ''sftp'', ''tel'']"

text \<open>\<^verbatim>\<open>str.lower\<close> on the characters a scheme can hold.\<close>

definition lower :: "char \<Rightarrow> char" where
  "lower c =
     (case map_of (zip ''ABCDEFGHIJKLMNOPQRSTUVWXYZ'' ''abcdefghijklmnopqrstuvwxyz'') c of
        None \<Rightarrow> c
      | Some l \<Rightarrow> l)"

text \<open>The characters of \<^verbatim>\<open>_WHATWG_C0_CONTROL_OR_SPACE\<close> and \<^verbatim>\<open>_UNSAFE_URL_BYTES_TO_REMOVE\<close>.\<close>

definition c0_control_or_space :: "char \<Rightarrow> bool" where
  "c0_control_or_space c = ((of_char c :: nat) \<le> 32)"

definition unsafe_url_char :: "char \<Rightarrow> bool" where
  "unsafe_url_char c = (c \<in> {CHR 0x09, CHR 0x0D, CHR 0x0A})"

text \<open>\<^verbatim>\<open>c.isascii()\<close>.\<close>

definition ascii :: "char \<Rightarrow> bool" where
  "ascii c = ((of_char c :: nat) < 128)"

text \<open>\<^verbatim>\<open>s.split(c, 1)\<close> when \<open>c\<close> occurs in \<open>s\<close>: the text before and after its first occurrence.\<close>

definition split_first :: "char \<Rightarrow> string \<Rightarrow> string \<times> string" where
  "split_first c s = (takeWhile (\<lambda>x. x \<noteq> c) s, drop 1 (dropWhile (\<lambda>x. x \<noteq> c) s))"

text \<open>
  The scheme test of \<^verbatim>\<open>urlsplit\<close>: with \<open>i\<close> the index of the first colon, a scheme is
  split off when \<open>i > 0\<close>, the first character is an ASCII letter and all of \<open>url[:i]\<close> are
  scheme characters.
\<close>

definition split_scheme :: "string \<Rightarrow> string \<times> string" where
  "split_scheme url =
     (if CHR '':'' \<in> set url then
        (let i = length (takeWhile (\<lambda>x. x \<noteq> CHR '':'') url) in
         if 0 < i \<and> hd url \<in> set ascii_letters
            \<and> list_all (\<lambda>c. c \<in> set scheme_chars) (take i url)
         then (map lower (take i url), drop (i + 1) url)
         else ('''', url))
      else ('''', url))"

text \<open>\<^verbatim>\<open>_splitnetloc(url, 2)\<close>: the authority ends at the first of \<^verbatim>\<open>/ ? #\<close>.\<close>

definition splitnetloc :: "string \<Rightarrow> string \<times> string" where
  "splitnetloc url =
     (takeWhile (\<lambda>c. c \<notin> set ''/?#'') (drop 2 url),
      dropWhile (\<lambda>c. c \<notin> set ''/?#'') (drop 2 url))"

text \<open>
  \<^verbatim>\<open>repr(s)\<close> of a string, as it appears in the message of \<^verbatim>\<open>ipaddress.ip_address\<close>:
  double quotes are used when the string holds a single quote and no double quote; the
  quote character and the backslash are escaped with a backslash; tab, line feed and
  carriage return are written \<^verbatim>\<open>\t\<close>, \<^verbatim>\<open>\n\<close>, \<^verbatim>\<open>\r\<close>; the other non-printable characters
  below 256 (below 32, 127 to 160, and 173) are written \<^verbatim>\<open>\xhh\<close>.
\<close>

definition hex_digit :: "nat \<Rightarrow> char" where
  "hex_digit n = ''0123456789abcdef'' ! (n mod 16)"

definition repr_char :: "char \<Rightarrow> char \<Rightarrow> string" where
  "repr_char quote c =
     (if c = quote \<or> c = CHR 0x5C then [CHR 0x5C, c]
      else if c = CHR 0x09 then [CHR 0x5C, CHR ''t'']
      else if c = CHR 0x0A then [CHR 0x5C, CHR ''n'']
      else if c = CHR 0x0D then [CHR 0x5C, CHR ''r'']
      else if (of_char c :: nat) < 32 \<or> c = CHR 0x7F
              \<or> (128 \<le> (of_char c :: nat) \<and> (of_char c :: nat) \<le> 160) \<or> c = CHR 0xAD
      then [CHR 0x5C, CHR ''x'', hex_digit (of_char c div 16), hex_digit (of_char c)]
      else [c])"

definition py_repr :: "string \<Rightarrow> string" where
  "py_repr s =
     (let quote = (if CHR 0x27 \<in> set s \<and> CHR 0x22 \<notin> set s then CHR 0x22 else CHR 0x27)
      in quote # concat (map (repr_char quote) s) @ [quote])"

text \<open>
  \<^verbatim>\<open>ipaddress.IPv4Address(s)._ip\<close>, or \<open>None\<close> when the constructor raises
  \<^verbatim>\<open>AddressValueError\<close>: four octets between dots, each of one to three ASCII digits
  without a leading zero and at most 255.
\<close>

definition ascii_digits :: string where
  "ascii_digits = ''0123456789''"

definition decimal :: "string \<Rightarrow> nat" where
  "decimal s = foldl (\<lambda>n c. 10 * n + (of_char c - 48)) 0 s"

definition parse_octet :: "string \<Rightarrow> nat option" where
  "parse_octet octet_str =
     (if octet_str = [] then None
      else if \<not> list_all (\<lambda>c. c \<in> set ascii_digits) octet_str then None
      else if 3 < length octet_str then None
      else if octet_str \<noteq> ''0'' \<and> hd octet_str = CHR ''0'' then None
      else if 255 < decimal octet_str then None
      else Some (decimal octet_str))"

definition ipv4_int :: "string \<Rightarrow> nat option" where
  "ipv4_int address =
     (if CHR ''/'' \<in> set address then None
      else if address = [] then None
      else (let octets = split_on CHR ''.'' address
            in if length octets \<noteq> 4 then None
               else (case those (map parse_octet octets) of
                       None \<Rightarrow> None
                     | Some ns \<Rightarrow> Some (foldl (\<lambda>n octet. 256 * n + octet) 0 ns))))"

text \<open>
  Whether \<^verbatim>\<open>ipaddress.IPv6Address(s)\<close> returns (its value is not used).  A hextet is one
  to four hexadecimal digits.  \<open>hex_of_nat\<close> is the format \<^verbatim>\<open>'%x'\<close>, used for the two
  hextets that replace an IPv4 suffix.
\<close>

definition hex_digits :: string where
  "hex_digits = ''0123456789ABCDEFabcdef''"

definition parse_hextet_ok :: "string \<Rightarrow> bool" where
  "parse_hextet_ok hextet_str =
     (list_all (\<lambda>c. c \<in> set hex_digits) hextet_str \<and> length hextet_str \<le> 4
      \<and> hextet_str \<noteq> [])"

fun hex_of_nat :: "nat \<Rightarrow> string" where
  "hex_of_nat n = (if n < 16 then [hex_digit n] else hex_of_nat (n div 16) @ [hex_digit n])"

text \<open>
  \<^verbatim>\<open>_BaseV6._ip_int_from_string\<close>, as a test.  \<open>skips\<close> are the inner positions of empty
  parts; more than one position is the error of a second \<^verbatim>\<open>::\<close>.
\<close>

definition ipv6_parts_ok :: "string list \<Rightarrow> bool" where
  "ipv6_parts_ok parts =
     (if 9 < length parts then False
      else (case filter (\<lambda>i. parts ! i = []) [1 ..< length parts - 1] of
              [] \<Rightarrow>
                length parts = 8 \<and> hd parts \<noteq> [] \<and> last parts \<noteq> []
                \<and> list_all parse_hextet_ok parts
            | skip_index # more \<Rightarrow>
                if more \<noteq> [] then False
                else (let parts_hi = (if hd parts = [] then skip_index - 1 else skip_index);
                          parts_lo = (if last parts = [] then length parts - skip_index - 1 - 1
                                      else length parts - skip_index - 1)
                      in if hd parts = [] \<and> parts_hi \<noteq> 0 then False
                         else if last parts = [] \<and> parts_lo \<noteq> 0 then False
                         else if 8 \<le> parts_hi + parts_lo then False
                         else list_all parse_hextet_ok (take parts_hi parts)
                              \<and> list_all parse_hextet_ok
                                   (drop (length parts - parts_lo) parts))))"

definition ipv6_int_ok :: "string \<Rightarrow> bool" where
  "ipv6_int_ok ip_str =
     (if ip_str = [] then False
      else (let parts = split_on CHR '':'' ip_str
            in if length parts < 3 then False
               else if CHR ''.'' \<in> set (last parts) then
                 (case ipv4_int (last parts) of
                    None \<Rightarrow> False
                  | Some v \<Rightarrow>
                      ipv6_parts_ok
                        (butlast parts
                           @ [hex_of_nat ((v div 65536) mod 65536), hex_of_nat (v mod 65536)]))
               else ipv6_parts_ok parts))"

text \<open>\<^verbatim>\<open>IPv6Address.__init__\<close> with \<^verbatim>\<open>_split_scope_id\<close>: an optional \<^verbatim>\<open>%scope\<close>.\<close>

definition ipv6_ok :: "string \<Rightarrow> bool" where
  "ipv6_ok address =
     (if CHR ''/'' \<in> set address then False
      else if CHR ''%'' \<in> set address then
        (let (addr, scope_id) = split_first CHR ''%'' address
         in if scope_id = [] \<or> CHR ''%'' \<in> set scope_id then False else ipv6_int_ok addr)
      else ipv6_int_ok address)"

text \<open>
  \<^verbatim>\<open>re.match(r"\Av[a-fA-F0-9]+\..+\Z", hostname)\<close>: the letter v, hexadecimal digits, a
  dot, and at least one more character, none of them a line feed.
\<close>

definition ipvfuture_ok :: "string \<Rightarrow> bool" where
  "ipvfuture_ok hostname =
     (let digits = takeWhile (\<lambda>c. c \<in> set hex_digits) (drop 1 hostname);
          rest = dropWhile (\<lambda>c. c \<in> set hex_digits) (drop 1 hostname)
      in take 1 hostname = ''v'' \<and> digits \<noteq> [] \<and> take 1 rest = ''.''
         \<and> drop 1 rest \<noteq> [] \<and> CHR 0x0A \<notin> set (drop 1 rest))"

text \<open>
  \<^verbatim>\<open>_check_bracketed_host\<close>: the \<^verbatim>\<open>ValueError\<close> it raises, if any.  A bracketed host
  must be an IPvFuture literal or an IPv6 address.
\<close>

definition check_bracketed_host :: "string \<Rightarrow> exn option" where
  "check_bracketed_host hostname =
     (if startswith hostname ''v'' then
        (if ipvfuture_ok hostname then None
         else Some (OtherException ''IPvFuture address is invalid''))
      else (case ipv4_int hostname of
              Some v \<Rightarrow> Some (OtherException ''An IPv4 address cannot be in brackets'')
            | None \<Rightarrow>
                if ipv6_ok hostname then None
                else Some (OtherException
                       (py_repr hostname @ '' does not appear to be an IPv4 or IPv6 address''))))"

text \<open>
  The first half of \<^verbatim>\<open>urlsplit(url)\<close> (default scheme \<^verbatim>\<open>''\<close>): leading control characters and
  spaces and all tabs, carriage returns and line feeds are removed, the scheme is split off,
  and after \<^verbatim>\<open>//\<close> the authority.  The results are the scheme, the authority and the rest.
\<close>

definition split_authority :: "string \<Rightarrow> string \<times> string \<times> string" where
  "split_authority url0 =
     (let url1 = filter (\<lambda>c. \<not> unsafe_url_char c) (dropWhile c0_control_or_space url0);
          (scheme, url2) = split_scheme url1;
          (netloc, url3) = (if take 2 url2 = ''//'' then splitnetloc url2 else ('''', url2))
      in (scheme, netloc, url3))"


text \<open>
  The validation of the authority in \<^verbatim>\<open>urlsplit\<close>: \<^verbatim>\<open>ValueError\<close> when exactly one of the
  two square brackets occurs, and with both brackets the test of the bracketed host, the text
  between the first \<^verbatim>\<open>[\<close> and the next \<^verbatim>\<open>]\<close>.  The last validation of the library,
  \<^verbatim>\<open>_checknetloc\<close>, raises when NFKC normalization brings one of \<^verbatim>\<open>/ ? # @ :\<close> into the
  authority; it does so for no character below 256 and has no part in the model.
\<close>

definition netloc_error :: "string \<Rightarrow> exn option" where
  "netloc_error netloc =
     (if (if CHR ''['' \<in> set netloc then CHR '']'' \<notin> set netloc
          else CHR '']'' \<in> set netloc)
      then Some (OtherException ''Invalid IPv6 URL'')
      else if CHR ''['' \<in> set netloc \<and> CHR '']'' \<in> set netloc
      then check_bracketed_host
             (takeWhile (\<lambda>c. c \<noteq> CHR '']'') (snd (split_first CHR ''['' netloc)))
      else None)"

text \<open>\<^verbatim>\<open>urlsplit(url)\<close> with the default scheme and fragments allowed.\<close>

definition urlsplit :: "string \<Rightarrow> exn + (string \<times> string \<times> string \<times> string \<times> string)" where
  "urlsplit url0 =
     (let (scheme, netloc, url3) = split_authority url0
      in case netloc_error netloc of
           Some e \<Rightarrow> Inl e
         | None \<Rightarrow>
             (let (url4, fragment) =
                    (if CHR ''#'' \<in> set url3 then split_first CHR ''#'' url3 else (url3, ''''));
                  (url5, query) =
                    (if CHR ''?'' \<in> set url4 then split_first CHR ''?'' url4 else (url4, ''''))
              in Inr (scheme, netloc, url5, query, fragment)))"

text \<open>
  \<^verbatim>\<open>_splitparams\<close>, called when the path holds a semicolon: the parameters start at the
  first semicolon of the last path segment, if it has one.
\<close>

definition splitparams :: "string \<Rightarrow> string \<times> string" where
  "splitparams url =
     (if CHR ''/'' \<in> set url then
        (let seg = rev (takeWhile (\<lambda>x. x \<noteq> CHR ''/'') (rev url));
             front = take (length url - length seg) url
         in if CHR '';'' \<in> set seg
            then (front @ fst (split_first CHR '';'' seg), snd (split_first CHR '';'' seg))
            else (url, ''''))
      else split_first CHR '';'' url)"

text \<open>The six fields of \<^verbatim>\<open>ParseResult\<close>.\<close>

record parse_result =
  scheme :: string
  netloc :: string
  path :: string
  params :: string
  query :: string
  fragment :: string

definition urlparse :: "string \<Rightarrow> exn + parse_result" where
  "urlparse url =
     (case urlsplit url of
        Inl e \<Rightarrow> Inl e
      | Inr (sch, loc, url', qry, frag) \<Rightarrow>
          (let (url'', prms) =
                 (if sch \<in> set uses_params \<and> CHR '';'' \<in> set url'
                  then splitparams url' else (url', ''''))
           in Inr \<lparr>scheme = sch, netloc = loc, path = url'', params = prms,
                   query = qry, fragment = frag\<rparr>))"

subsection \<open>\<^verbatim>\<open>os.path.join\<close> and \<^verbatim>\<open>os.path.splitext\<close> (\<^verbatim>\<open>posixpath\<close>)\<close>

text \<open>One round of the loop of \<^verbatim>\<open>posixpath.join\<close>, and the loop.\<close>

definition join_step :: "string \<Rightarrow> string \<Rightarrow> string" where
  "join_step p b =
     (if startswith b ''/'' then b
      else if p = [] \<or> endswith p ''/'' then p @ b
      else p @ ''/'' @ b)"

definition os_path_join :: "string \<Rightarrow> string list \<Rightarrow> string" where
  "os_path_join a ps = foldl join_step a ps"

text \<open>\<^verbatim>\<open>s.rfind(c)\<close>: the index of the last occurrence, or \<open>-1\<close>.\<close>

definition rfind :: "char \<Rightarrow> string \<Rightarrow> int" where
  "rfind c s =
     (if c \<in> set s then int (length s) - 1 - int (length (takeWhile (\<lambda>x. x \<noteq> c) (rev s)))
      else - 1)"

text \<open>
  \<^verbatim>\<open>genericpath._splitext(p, '/', None, '.')\<close>: the extension starts at the last dot,
  provided that dot comes after the last separator and some character between the separator
  and the dot is not a dot (the loop that skips leading dots).
\<close>

definition splitext :: "string \<Rightarrow> string \<times> string" where
  "splitext p =
     (let sepIndex = rfind CHR ''/'' p;
          dotIndex = rfind CHR ''.'' p
      in if sepIndex < dotIndex
            \<and> list_ex (\<lambda>x. x \<noteq> CHR ''.'')
                 (take (nat (dotIndex - (sepIndex + 1))) (drop (nat (sepIndex + 1)) p))
         then (take (nat dotIndex) p, drop (nat dotIndex) p)
         else (p, ''''))"

subsection \<open>The path mapper \<^verbatim>\<open>create_directory_structure\<close>\<close>

definition alnum_chars :: string where
  "alnum_chars = ''abcdefghijklmnopqrstuvwxyzABCDEFGHIJKLMNOPQRSTUVWXYZ0123456789''"

text \<open>Line 55: \<^verbatim>\<open>re.sub(r'[^a-zA-Z0-9]', '_', parsed_url.query)[:50]\<close>.\<close>

definition query_safe :: "string \<Rightarrow> string" where
  "query_safe q = take 50 (map (\<lambda>c. if c \<in> set alnum_chars then c else CHR ''_'') q)"

text \<open>
  Lines 27 to 45: the unsanitized file name and the unsanitized directory parts, chosen from
  the host and the path with its leading and trailing slashes stripped.
\<close>

definition split_path :: "parse_result \<Rightarrow> string \<times> string list" where
  "split_path parsed_url =
     (let domain = netloc parsed_url;
          path' = strip_char CHR ''/'' (path parsed_url)
      in if path' \<noteq> [] then
           (let path_parts = split_on CHR ''/'' path' in
            if endswith (last path_parts) ''.js''
            then (last path_parts, domain # butlast path_parts)
            else (''index.js'', domain # path_parts))
         else (''index.js'', [domain]))"

text \<open>Lines 54 to 57: the query suffix goes between the base name and the extension.\<close>

definition add_query :: "string \<Rightarrow> string \<Rightarrow> string" where
  "add_query q file_name =
     (if q \<noteq> [] then
        (let (base_name, ext) = splitext file_name
         in base_name @ ''_'' @ query_safe q @ ext)
      else file_name)"

text \<open>Lines 27 to 59, on the parsed URL.\<close>

definition locate :: "parse_result \<Rightarrow> string \<Rightarrow> string \<times> string" where
  "locate parsed_url base_dir =
     (let (file_name, dir_parts) = split_path parsed_url;
          dir_path = os_path_join base_dir (map sanitize_filename dir_parts);
          file_name' = sanitize_filename file_name
      in (dir_path, add_query (query parsed_url) file_name'))"

text \<open>The whole function: it raises what \<^verbatim>\<open>urlparse\<close> raises.\<close>

definition create_directory_structure :: "string \<Rightarrow> string \<Rightarrow> exn + (string \<times> string)" where
  "create_directory_structure url base_dir =
     (case urlparse url of
        Inl e \<Rightarrow> Inl e
      | Inr parsed_url \<Rightarrow> Inr (locate parsed_url base_dir))"

subsection \<open>Dictionaries\<close>

text \<open>
  A Python \<^verbatim>\<open>dict\<close> from strings to strings, as an association list in insertion order:
  \<^verbatim>\<open>d[k] = v\<close> replaces the value of an existing key in place and appends a new key, which
  is \<^const>\<open>AList.update\<close>; \<^verbatim>\<open>d.update(other)\<close> stores the items of \<open>other\<close> in order.
\<close>

type_synonym dict = "(string \<times> string) list"

definition dict_update :: "dict \<Rightarrow> dict \<Rightarrow> dict" where
  "dict_update d other = foldl (\<lambda>acc (k, v). AList.update k v acc) d other"

subsection \<open>The world of the worker\<close>

text \<open>
  What \<^verbatim>\<open>requests.get\<close> returns: the status code, the decoded body, and the message of
  the \<^verbatim>\<open>HTTPError\<close> that \<^verbatim>\<open>raise_for_status\<close> raises for a status from 400 to 599.
\<close>

record response =
  status_code :: nat
  response_text :: string
  http_error :: string

definition raise_for_status :: "response \<Rightarrow> exn option" where
  "raise_for_status r =
     (if 400 \<le> status_code r \<and> status_code r < 600
      then Some (RequestException (http_error r)) else None)"

text \<open>
  The file system, the network and the standard output.  The fields \<open>files\<close> (regular
  files and their contents), \<open>dirs\<close> (directories), \<open>requests_sent\<close> (the GET requests
  issued so far, with their headers) and \<open>stdout\<close> (the printed lines) are state.  The other
  fields are the answers of the environment, which the model leaves arbitrary: whether
  creating a missing directory, opening a file for writing, writing a text or printing a
  line fails, and with which message; what a request returns or raises; and
  \<^verbatim>\<open>os.path.relpath\<close>, which depends on the working directory.  Paths are compared as
  strings.
\<close>

record world =
  files :: "string \<Rightarrow> string option"
  dirs :: "string set"
  makedirs_error :: "string \<Rightarrow> string option"
  open_error :: "string \<Rightarrow> string option"
  write_error :: "string \<Rightarrow> string \<Rightarrow> string option"
  print_error :: "string \<Rightarrow> string option"
  http_get :: "string \<Rightarrow> dict \<Rightarrow> exn + response"
  relpath :: "string \<Rightarrow> string \<Rightarrow> string"
  requests_sent :: "(string \<times> dict) list"
  stdout :: "string list"

text \<open>
  \<^verbatim>\<open>print(s)\<close>.  \<open>print_line\<close> is what a print that succeeds does.  \<open>py_print\<close> is the
  call: it raises when the standard output refuses the line (a closed pipe, a character that
  the encoding of the standard output does not have).
\<close>

definition print_line :: "world \<Rightarrow> string \<Rightarrow> world" where
  "print_line w s = w\<lparr>stdout := stdout w @ [s]\<rparr>"

definition py_print :: "world \<Rightarrow> string \<Rightarrow> exn + world" where
  "py_print w s =
     (case print_error w s of
        Some msg \<Rightarrow> Inl (OtherException msg)
      | None \<Rightarrow> Inr (print_line w s))"

text \<open>\<^verbatim>\<open>os.path.exists\<close>: true of files and of directories; it never raises.\<close>

definition os_path_exists :: "world \<Rightarrow> string \<Rightarrow> bool" where
  "os_path_exists w p = (case files w p of Some _ \<Rightarrow> True | None \<Rightarrow> p \<in> dirs w)"

text \<open>
  \<^verbatim>\<open>posixpath.split\<close>: the head up to the last slash, without its trailing slashes unless
  it consists of slashes, and the tail after the last slash.
\<close>

definition os_path_split :: "string \<Rightarrow> string \<times> string" where
  "os_path_split p =
     (let i = nat (rfind CHR ''/'' p + 1);
          head = take i p;
          tail = drop i p
      in (if head \<noteq> [] \<and> \<not> list_all (\<lambda>c. c = CHR ''/'') head
          then rev (dropWhile (\<lambda>c. c = CHR ''/'') (rev head)) else head,
          tail))"

text \<open>
  The first lines of \<^verbatim>\<open>os.makedirs\<close>: the head and tail of the name, taken from the head
  once more when the tail is empty.
\<close>

definition makedirs_parent :: "string \<Rightarrow> string \<times> string" where
  "makedirs_parent name =
     (if snd (os_path_split name) = [] then os_path_split (fst (os_path_split name))
      else os_path_split name)"

text \<open>
  The directories that exist after a call of \<^verbatim>\<open>os.makedirs(name, exist_ok=True)\<close> that
  returns: the name itself and, as long as the head is missing (and head and tail are not
  empty), what the recursive call on the head leaves.
\<close>

function made_dirs :: "world \<Rightarrow> string \<Rightarrow> string list" where
  "made_dirs w name =
     (if fst (makedirs_parent name) \<noteq> [] \<and> snd (makedirs_parent name) \<noteq> []
         \<and> \<not> os_path_exists w (fst (makedirs_parent name))
      then name # made_dirs w (fst (makedirs_parent name))
      else [name])"
  by pat_completeness auto
termination
proof (relation "measure (\<lambda>(w, name). length name)")
  show "wf (measure (\<lambda>(w, name). length name))" by simp
next
  fix w :: world and name :: string
  assume "fst (makedirs_parent name) \<noteq> [] \<and> snd (makedirs_parent name) \<noteq> []
          \<and> \<not> os_path_exists w (fst (makedirs_parent name))"
  then have t: "0 < length (snd (makedirs_parent name))" by simp
  have l: "length (fst (os_path_split p)) + length (snd (os_path_split p)) \<le> length p"
    for p :: string
  proof -
    have "length (dropWhile (\<lambda>c. c = CHR ''/'') (rev h)) \<le> length h" for h :: string
      using length_dropWhile_le [of "\<lambda>c. c = CHR ''/''" "rev h"] by simp
    from this [of "take (nat (rfind CHR ''/'' p + 1)) p"]
    have "length (fst (os_path_split p)) \<le> length (take (nat (rfind CHR ''/'' p + 1)) p)"
      by (simp add: os_path_split_def Let_def)
    moreover have "snd (os_path_split p) = drop (nat (rfind CHR ''/'' p + 1)) p"
      by (simp add: os_path_split_def Let_def)
    ultimately show ?thesis by (simp, arith)
  qed
  have "length (fst (makedirs_parent name)) < length name"
  proof (cases "snd (os_path_split name) = []")
    case True
    then have p: "makedirs_parent name = os_path_split (fst (os_path_split name))"
      by (simp add: makedirs_parent_def)
    from t l [of "fst (os_path_split name)"] l [of name] show ?thesis
      unfolding p by linarith
  next
    case False
    then have p: "makedirs_parent name = os_path_split name"
      by (simp add: makedirs_parent_def)
    from t l [of name] show ?thesis unfolding p by linarith
  qed
  then show "((w, fst (makedirs_parent name)), (w, name)) \<in> measure (\<lambda>(w, name). length name)"
    by simp
qed

declare made_dirs.simps [simp del]

text \<open>
  \<^verbatim>\<open>os.makedirs(p, exist_ok=True)\<close>.  An error of the final \<^verbatim>\<open>mkdir\<close> is swallowed when
  \<open>p\<close> is a directory.  When \<open>p\<close> is a regular file, \<^verbatim>\<open>mkdir\<close> raises \<^verbatim>\<open>FileExistsError\<close>.
  Otherwise the call raises as the environment says, or returns with the directory and its
  missing parents made.  A call that raises is taken to make no directory.
\<close>

definition os_makedirs :: "world \<Rightarrow> string \<Rightarrow> exn + world" where
  "os_makedirs w p =
     (if p \<in> dirs w then Inr w
      else (case files w p of
              Some content \<Rightarrow> Inl (OtherException (''[Errno 17] File exists: '' @ py_repr p))
            | None \<Rightarrow>
                (case makedirs_error w p of
                   Some msg \<Rightarrow> Inl (OtherException msg)
                 | None \<Rightarrow> Inr (w\<lparr>dirs := dirs w \<union> set (made_dirs w p)\<rparr>))))"

text \<open>
  Lines 92 and 93: \<^verbatim>\<open>open(filepath, 'w')\<close> raises or leaves an empty file; then
  \<^verbatim>\<open>f.write(text)\<close> raises or leaves the text in the file.
\<close>

definition write_text :: "world \<Rightarrow> string \<Rightarrow> string \<Rightarrow> exn option \<times> world" where
  "write_text w filepath txt =
     (case open_error w filepath of
        Some msg \<Rightarrow> (Some (OtherException msg), w)
      | None \<Rightarrow>
          (case write_error w filepath txt of
             Some msg \<Rightarrow> (Some (OtherException msg), w\<lparr>files := (files w)(filepath \<mapsto> [])\<rparr>)
           | None \<Rightarrow> (None, w\<lparr>files := (files w)(filepath \<mapsto> txt)\<rparr>)))"

text \<open>\<^verbatim>\<open>requests.get(url, headers=headers, timeout=30, verify=False)\<close>, logged.\<close>

definition requests_get :: "world \<Rightarrow> string \<Rightarrow> dict \<Rightarrow> (exn + response) \<times> world" where
  "requests_get w url headers =
     (http_get w url headers, w\<lparr>requests_sent := requests_sent w @ [(url, headers)]\<rparr>)"

subsection \<open>The worker \<^verbatim>\<open>download_js\<close>\<close>

definition default_headers :: dict where
  "default_headers =
     [(''User-Agent'', ''Mozilla/5.0 (Windows NT 10.0; Win64; x64) AppleWebKit/537.36'')]"

text \<open>Lines 79 to 85: the headers of the request.  A \<^verbatim>\<open>custom_headers\<close> of \<^verbatim>\<open>None\<close> is
  the empty dictionary here: both are false in the test of line 84.\<close>

definition request_headers :: "dict \<Rightarrow> dict" where
  "request_headers custom_headers =
     (if custom_headers \<noteq> [] then dict_update default_headers custom_headers
      else default_headers)"

text \<open>
  Lines 64 to 98, the body of the \<^verbatim>\<open>try\<close> statement: it returns \<^verbatim>\<open>(True, url)\<close> or
  raises (\<open>Inl\<close>).  Each of its steps can raise: the mapper, \<^verbatim>\<open>os.makedirs\<close>, the request,
  \<^verbatim>\<open>raise_for_status\<close>, opening and writing the file, and the two calls of \<^verbatim>\<open>print\<close>.
\<close>

definition download_js_try_io ::
  "string \<Rightarrow> string \<Rightarrow> dict \<Rightarrow> world \<Rightarrow> (exn + bool \<times> string) \<times> world" where
  "download_js_try_io url output_dir custom_headers w =
     (case create_directory_structure url output_dir of
        Inl e \<Rightarrow> (Inl e, w)
      | Inr (dir_path, filename) \<Rightarrow>
          (case os_makedirs w dir_path of
             Inl e \<Rightarrow> (Inl e, w)
           | Inr w1 \<Rightarrow>
               (let filepath = os_path_join dir_path [filename] in
                if os_path_exists w1 filepath
                then (case py_print w1 (''[SKIP] Already exists: '' @ filepath) of
                        Inl e \<Rightarrow> (Inl e, w1)
                      | Inr w2 \<Rightarrow> (Inr (True, url), w2))
                else
                  (case requests_get w1 url (request_headers custom_headers) of
                     (Inl e, w2) \<Rightarrow> (Inl e, w2)
                   | (Inr resp, w2) \<Rightarrow>
                       (case raise_for_status resp of
                          Some e \<Rightarrow> (Inl e, w2)
                        | None \<Rightarrow>
                            (case write_text w2 filepath (response_text resp) of
                               (Some e, w3) \<Rightarrow> (Inl e, w3)
                             | (None, w3) \<Rightarrow>
                                 (let relative_path = relpath w3 filepath output_dir
                                  in case py_print w3
                                            (''[SUCCESS] '' @ url @ '' -> '' @ relative_path) of
                                       Inl e \<Rightarrow> (Inl e, w3)
                                     | Inr w4 \<Rightarrow> (Inr (True, url), w4))))))))"

text \<open>
  Lines 100 to 108: the line that the handler of an exception prints.  The three handlers
  are tried in the order of the source: \<^verbatim>\<open>Timeout\<close>, then \<^verbatim>\<open>RequestException\<close>, then
  \<^verbatim>\<open>Exception\<close>.
\<close>

fun failure_line :: "string \<Rightarrow> exn \<Rightarrow> string" where
  "failure_line url Timeout = ''[TIMEOUT] '' @ url"
| "failure_line url (RequestException msg) = ''[ERROR] '' @ url @ '': '' @ msg"
| "failure_line url (OtherException msg) = ''[ERROR] '' @ url @ '': Unexpected error: '' @ msg"

text \<open>
  \<^verbatim>\<open>download_js\<close>, lines 61 to 108.  An exception of the body is caught by its handler,
  which prints its line and returns \<^verbatim>\<open>(False, url)\<close>.  The \<^verbatim>\<open>print\<close> of a handler is
  inside no \<^verbatim>\<open>try\<close> statement: when it raises, the exception leaves the worker (\<open>Inl\<close>).
\<close>

definition download_js_io ::
  "string \<Rightarrow> string \<Rightarrow> dict \<Rightarrow> world \<Rightarrow> (exn + bool \<times> string) \<times> world" where
  "download_js_io url output_dir custom_headers w =
     (case download_js_try_io url output_dir custom_headers w of
        (Inr r, w') \<Rightarrow> (Inr r, w')
      | (Inl e, w') \<Rightarrow>
          (case py_print w' (failure_line url e) of
             Inl e' \<Rightarrow> (Inl e', w')
           | Inr w'' \<Rightarrow> (Inr (False, url), w'')))"



subsection \<open>Headers\<close>

text \<open>\<^verbatim>\<open>s.strip()\<close>: the characters below 256 for which \<^verbatim>\<open>str.isspace\<close> holds.\<close>

definition py_whitespace :: "char \<Rightarrow> bool" where
  "py_whitespace c =
     (c \<in> {CHR 0x09, CHR 0x0A, CHR 0x0B, CHR 0x0C, CHR 0x0D, CHR 0x1C, CHR 0x1D, CHR 0x1E,
            CHR 0x1F, CHR 0x20, CHR 0x85, CHR 0xA0})"

definition strip :: "string \<Rightarrow> string" where
  "strip s = rev (dropWhile py_whitespace (rev (dropWhile py_whitespace s)))"

text \<open>
  Lines 199 to 201, and 140 to 142 alike: a text with a colon is split at its first colon
  and stored under the stripped key.
\<close>

definition store_header :: "dict \<Rightarrow> string \<Rightarrow> dict" where
  "store_header headers header =
     (if CHR '':'' \<in> set header then
        (let (key, val) = split_first CHR '':'' header
         in AList.update (strip key) (strip val) headers)
      else headers)"

text \<open>
  \<^verbatim>\<open>load_headers_from_file\<close>.  The parameter \<open>json_load\<close> stands for \<^verbatim>\<open>json.load\<close>: it
  gives the decoded object as a dictionary, or \<open>None\<close> for \<^verbatim>\<open>JSONDecodeError\<close>.  A
  missing file gives the warning and the empty dictionary.
\<close>

definition load_headers_from_file ::
  "(string \<Rightarrow> dict option) \<Rightarrow> world \<Rightarrow> string \<Rightarrow> dict \<times> world" where
  "load_headers_from_file json_load w filename =
     (case files w filename of
        None \<Rightarrow>
          ([], print_line w
                 (''Warning: Header file '' @ [CHR 0x27] @ filename @ [CHR 0x27] @ '' not found''))
      | Some content \<Rightarrow>
          (case json_load content of
             Some headers \<Rightarrow> (headers, w)
           | None \<Rightarrow>
               (foldl (\<lambda>headers line. if strip line \<noteq> [] then store_header headers (strip line)
                                       else headers)
                  [] (split_on CHR 0x0A content), w)))"

text \<open>
  Lines 194 to 206 of \<^verbatim>\<open>main\<close>: the headers of the command line first, then the headers
  of the file.  \<open>args_headers\<close> is the list of the \<^verbatim>\<open>-H\<close> options (empty when there is
  none), \<open>args_header_file\<close> the \<^verbatim>\<open>--header-file\<close> option.
\<close>

definition collect_headers ::
  "(string \<Rightarrow> dict option) \<Rightarrow> string list \<Rightarrow> string option \<Rightarrow> world \<Rightarrow> dict \<times> world" where
  "collect_headers json_load args_headers args_header_file w =
     (let custom_headers = foldl store_header [] args_headers
      in case args_header_file of
           None \<Rightarrow> (custom_headers, w)
         | Some filename \<Rightarrow>
             if filename = [] then (custom_headers, w)
             else (let (file_headers, w') = load_headers_from_file json_load w filename
                   in (dict_update custom_headers file_headers, w')))"

subsection \<open>The scheduler\<close>



text \<open>
  Lines 248 to 257 with workers that can raise.  \<^verbatim>\<open>future.result()\<close> (line 252) raises
  again in \<^verbatim>\<open>main\<close> what the worker raised, and nothing in \<^verbatim>\<open>main\<close> catches it: the loop
  ends at the first such future, in the order of completion, and no outcome is collected.
  The \<^verbatim>\<open>with\<close> statement still waits for the other workers, so their effects on the world
  take place.
\<close>

fun run_workers_io ::
  "string list \<Rightarrow> string \<Rightarrow> dict \<Rightarrow> world \<Rightarrow> (exn + (bool \<times> string) list) \<times> world" where
  "run_workers_io [] output_dir custom_headers w = (Inr [], w)"
| "run_workers_io (url # urls) output_dir custom_headers w =
     (let (r, w1) = download_js_io url output_dir custom_headers w;
          (rs, w2) = run_workers_io urls output_dir custom_headers w1
      in case r of
           Inl e \<Rightarrow> (Inl e, w2)
         | Inr outcome \<Rightarrow>
             (case rs of
                Inl e \<Rightarrow> (Inl e, w2)
              | Inr outcomes \<Rightarrow> (Inr (outcome # outcomes), w2)))"



subsection \<open>Example worlds\<close>

text \<open>
  Concrete worlds for the instances below.  In \<open>example_world\<close> nothing exists yet, no
  file operation fails, and every request is answered with status 200, except for one URL
  whose request times out.  In \<open>cached_world\<close> the target of
  \<^verbatim>\<open>https://example.com/app.js\<close> under \<^verbatim>\<open>./js_files\<close> is already there.
\<close>

definition example_world :: world where
  "example_world =
     \<lparr>files = (\<lambda>p. None), dirs = {},
      makedirs_error = (\<lambda>p. None), open_error = (\<lambda>p. None), write_error = (\<lambda>p t. None),
      print_error = (\<lambda>s. None),
      http_get = (\<lambda>url headers.
         if url = ''https://slow.example.com/lib.js'' then Inl Timeout
         else Inr \<lparr>status_code = 200, response_text = ''var a;'', http_error = ''''\<rparr>),
      relpath = (\<lambda>p start. drop (Suc (length start)) p),
      requests_sent = [], stdout = []\<rparr>"


text \<open>
  In \<open>closed_pipe_world\<close> the standard output is a pipe whose reader has exited, as in
  \<^verbatim>\<open>python -u js_download.py urls.txt | head -n 5\<close> once \<^verbatim>\<open>head\<close> has read the five lines
  that \<^verbatim>\<open>main\<close> prints first: every \<^verbatim>\<open>print\<close> raises \<^verbatim>\<open>BrokenPipeError\<close>.  In
  \<open>refusing_world\<close> every request fails with a connection error.
\<close>

definition closed_pipe_world :: world where
  "closed_pipe_world = example_world\<lparr>print_error := (\<lambda>s. Some ''[Errno 32] Broken pipe'')\<rparr>"

definition refusing_world :: world where
  "refusing_world =
     example_world\<lparr>http_get := (\<lambda>url headers. Inl (RequestException ''Connection refused''))\<rparr>"

section \<open>Properties\<close>

subsection \<open>The sanitizer\<close>

lemma underscore_legal: "CHR ''_'' \<notin> illegal_chars"
  by (simp add: illegal_chars_def)

lemma sanitize_filename_legal: "set (sanitize_filename s) \<inter> illegal_chars = {}"
  by (auto simp: sanitize_filename_def underscore_legal)

text \<open>
  Claim C10.  The sanitizer is idempotent, \<open>sanitize (sanitize s) = sanitize s\<close> for every
  string \<open>s\<close>, and its result is as long as its input.
\<close>

theorem sanitize_filename_idempotent_length:
  "sanitize_filename (sanitize_filename s) = sanitize_filename s
   \<and> length (sanitize_filename s) = length s"
  by (simp add: sanitize_filename_def underscore_legal)

subsection \<open>Characters of the mapped names\<close>

lemma set_os_path_join:
  "set (os_path_join a ps) \<subseteq> set a \<union> {CHR ''/''} \<union> \<Union> (set ` set ps)"
  unfolding os_path_join_def
proof (induction ps arbitrary: a)
  case Nil
  show ?case by auto
next
  case (Cons b ps)
  have "set (join_step a b) \<subseteq> set a \<union> {CHR ''/''} \<union> set b"
    by (auto simp: join_step_def)
  with Cons [of "join_step a b"] show ?case by auto
qed

lemma splitext_fst_subset: "set (fst (splitext p)) \<subseteq> set p"
  by (auto simp: splitext_def Let_def dest: in_set_takeD)

lemma splitext_snd_subset: "set (snd (splitext p)) \<subseteq> set p"
  by (auto simp: splitext_def Let_def dest: in_set_dropD)

lemma alnum_legal: "c \<in> set alnum_chars \<Longrightarrow> c \<notin> illegal_chars"
  by (auto simp: alnum_chars_def illegal_chars_def)

lemma query_safe_legal: "set (query_safe q) \<inter> illegal_chars = {}"
  by (auto simp: query_safe_def underscore_legal alnum_legal dest!: in_set_takeD)

lemma add_query_legal:
  assumes "set f \<inter> illegal_chars = {}"
  shows "set (add_query q f) \<inter> illegal_chars = {}"
proof (cases "q = []")
  case True
  with assms show ?thesis by (simp add: add_query_def)
next
  case False
  have "set (fst (splitext f)) \<inter> illegal_chars = {}"
    and "set (snd (splitext f)) \<inter> illegal_chars = {}"
    using assms splitext_fst_subset [of f] splitext_snd_subset [of f] by blast+
  with False query_safe_legal [of q] underscore_legal show ?thesis
    by (auto simp: add_query_def split_beta)
qed

lemma locate_legal:
  "fst (locate p b) = os_path_join b (map sanitize_filename (snd (split_path p)))
   \<and> list_all (\<lambda>seg. set seg \<inter> illegal_chars = {}) (map sanitize_filename (snd (split_path p)))
   \<and> set (fst (locate p b)) \<inter> illegal_chars \<subseteq> set b
   \<and> set (snd (locate p b)) \<inter> illegal_chars = {}"
proof -
  let ?segs = "map sanitize_filename (snd (split_path p))"
  have 1: "fst (locate p b) = os_path_join b ?segs"
    by (simp add: locate_def split_beta)
  have 2: "list_all (\<lambda>seg. set seg \<inter> illegal_chars = {}) ?segs"
    by (simp add: list_all_iff sanitize_filename_legal)
  have "CHR ''/'' \<notin> illegal_chars" by (simp add: illegal_chars_def)
  moreover have "\<Union> (set ` set ?segs) \<inter> illegal_chars = {}"
    using sanitize_filename_legal by auto
  ultimately have 3: "set (fst (locate p b)) \<inter> illegal_chars \<subseteq> set b"
    using set_os_path_join [of b ?segs] unfolding 1 by blast
  have 4: "set (snd (locate p b)) \<inter> illegal_chars = {}"
    by (simp add: locate_def split_beta add_query_legal sanitize_filename_legal)
  from 1 2 3 4 show ?thesis by blast
qed

text \<open>
  Claim C8.  For every URL the mapper accepts, the directory path is the base directory
  joined with the sanitized directory segments, none of which holds one of the characters
  \<^verbatim>\<open>< > : " | ? *\<close>; any such character of the directory path comes from the base
  directory; and the final file name, query suffix included, holds none of them.
\<close>

theorem mapped_names_legal:
  assumes "urlparse url = Inr parsed_url"
    and "create_directory_structure url base_dir = Inr (dir_path, file_name)"
  shows "dir_path = os_path_join base_dir (map sanitize_filename (snd (split_path parsed_url)))
    \<and> list_all (\<lambda>seg. set seg \<inter> illegal_chars = {})
         (map sanitize_filename (snd (split_path parsed_url)))
    \<and> set dir_path \<inter> illegal_chars \<subseteq> set base_dir
    \<and> set file_name \<inter> illegal_chars = {}"
proof -
  from assms have l: "locate parsed_url base_dir = (dir_path, file_name)"
    by (simp add: create_directory_structure_def)
  show ?thesis
    using locate_legal [of parsed_url base_dir] unfolding l fst_conv snd_conv .
qed

theorem mapped_names_legal_witness:
  "urlparse ''https://example.com:8080/a*b/c|d.js?x=<1>''
     = Inr \<lparr>scheme = ''https'', netloc = ''example.com:8080'', path = ''/a*b/c|d.js'',
            params = '''', query = ''x=<1>'', fragment = ''''\<rparr>
   \<and> create_directory_structure ''https://example.com:8080/a*b/c|d.js?x=<1>'' ''out''
     = Inr (''out/example.com_8080/a_b'', ''c_d_x__1_.js'')
   \<and> set ''out/example.com_8080/a_b'' \<inter> illegal_chars \<subseteq> set ''out''
   \<and> set ''c_d_x__1_.js'' \<inter> illegal_chars = {}"
proof -
  have p: "urlparse ''https://example.com:8080/a*b/c|d.js?x=<1>''
     = Inr \<lparr>scheme = ''https'', netloc = ''example.com:8080'', path = ''/a*b/c|d.js'',
            params = '''', query = ''x=<1>'', fragment = ''''\<rparr>"
    by code_simp
  have c: "create_directory_structure ''https://example.com:8080/a*b/c|d.js?x=<1>'' ''out''
     = Inr (''out/example.com_8080/a_b'', ''c_d_x__1_.js'')"
    by code_simp
  from mapped_names_legal [OF p c] p c show ?thesis by blast
qed

subsection \<open>Which URLs the mapper accepts\<close>








subsection \<open>Query variants\<close>

lemma locate_same_place:
  assumes "netloc p1 = netloc p2" and "path p1 = path p2"
    and "query p1 \<noteq> []" and "query p2 \<noteq> []"
  shows "fst (locate p1 b) = fst (locate p2 b)
    \<and> (snd (locate p1 b) = snd (locate p2 b)
         \<longleftrightarrow> query_safe (query p1) = query_safe (query p2))"
  using assms by (simp add: locate_def split_path_def Let_def add_query_def split_beta)

text \<open>
  Claim C2 says two URLs that differ only in their non-empty queries always get distinct
  file names.  They do not when the queries differ only in characters that line 55 replaces
  by an underscore (or beyond the 50th character): both URLs below map to the same file.
\<close>

theorem query_collision_counterexample:
  "create_directory_structure ''https://example.com/bundle.js?v=1.2'' ''./js_files''
     = Inr (''./js_files/example.com'', ''bundle_v_1_2.js'')
   \<and> create_directory_structure ''https://example.com/bundle.js?v=1-2'' ''./js_files''
     = Inr (''./js_files/example.com'', ''bundle_v_1_2.js'')"
  by code_simp

text \<open>
  Claim C2, amended.  Two URLs with the same host and path and non-empty queries map to the
  same directory, and their file names differ exactly when the queries still differ after
  every non-alphanumeric character is replaced by an underscore and the result is cut to 50
  characters.  The two URLs of the specification are such a pair.
\<close>

theorem query_variants_files:
  assumes "urlparse url1 = Inr p1" and "urlparse url2 = Inr p2"
    and "netloc p1 = netloc p2" and "path p1 = path p2"
    and "query p1 \<noteq> []" and "query p2 \<noteq> []"
    and "create_directory_structure url1 base_dir = Inr (dir1, file1)"
    and "create_directory_structure url2 base_dir = Inr (dir2, file2)"
  shows "dir1 = dir2
    \<and> (file1 = file2 \<longleftrightarrow> query_safe (query p1) = query_safe (query p2))"
proof -
  from assms(1,7) have 1: "locate p1 base_dir = (dir1, file1)"
    by (simp add: create_directory_structure_def)
  from assms(2,8) have 2: "locate p2 base_dir = (dir2, file2)"
    by (simp add: create_directory_structure_def)
  show ?thesis
    using locate_same_place [OF assms(3-6), of base_dir] unfolding 1 2 fst_conv snd_conv .
qed

theorem query_variants_files_witness:
  "create_directory_structure ''https://example.com/bundle.js?v=123&env=prod'' ''./js_files''
     = Inr (''./js_files/example.com'', ''bundle_v_123_env_prod.js'')
   \<and> create_directory_structure ''https://example.com/bundle.js?v=456'' ''./js_files''
     = Inr (''./js_files/example.com'', ''bundle_v_456.js'')
   \<and> query_safe ''v=123&env=prod'' \<noteq> query_safe ''v=456''
   \<and> ''bundle_v_123_env_prod.js'' \<noteq> ''bundle_v_456.js''"
proof -
  let ?p1 = "\<lparr>scheme = ''https'', netloc = ''example.com'', path = ''/bundle.js'',
              params = '''', query = ''v=123&env=prod'', fragment = ''''\<rparr>"
  let ?p2 = "\<lparr>scheme = ''https'', netloc = ''example.com'', path = ''/bundle.js'',
              params = '''', query = ''v=456'', fragment = ''''\<rparr>"
  have u1: "urlparse ''https://example.com/bundle.js?v=123&env=prod'' = Inr ?p1"
    by code_simp
  have u2: "urlparse ''https://example.com/bundle.js?v=456'' = Inr ?p2"
    by code_simp
  have n: "netloc ?p1 = netloc ?p2" and p: "path ?p1 = path ?p2"
    and q1: "query ?p1 \<noteq> []" and q2: "query ?p2 \<noteq> []" by simp_all
  have c1: "create_directory_structure ''https://example.com/bundle.js?v=123&env=prod''
              ''./js_files'' = Inr (''./js_files/example.com'', ''bundle_v_123_env_prod.js'')"
    by code_simp
  have c2: "create_directory_structure ''https://example.com/bundle.js?v=456'' ''./js_files''
              = Inr (''./js_files/example.com'', ''bundle_v_456.js'')"
    by code_simp
  have d: "''bundle_v_123_env_prod.js'' \<noteq> ''bundle_v_456.js''" by simp
  from query_variants_files [OF u1 u2 n p q1 q2 c1 c2] d
  have "query_safe ''v=123&env=prod'' \<noteq> query_safe ''v=456''" by simp
  with c1 c2 d show ?thesis by blast
qed

subsection \<open>File name and directories\<close>








subsection \<open>The worker\<close>














subsection \<open>The scheduler\<close>









subsection \<open>Header precedence\<close>

lemma map_of_dict_update:
  "map_of (dict_update d other) = map_of d ++ map_of (rev other)"
proof (induction other arbitrary: d)
  case Nil
  show ?case by (simp add: dict_update_def)
next
  case (Cons kv other)
  obtain k v where kv: "kv = (k, v)" by (cases kv)
  have "dict_update d (kv # other) = dict_update (AList.update k v d) other"
    by (simp add: dict_update_def kv)
  then have "map_of (dict_update d (kv # other))
               = map_of (AList.update k v d) ++ map_of (rev other)"
    using Cons [of "AList.update k v d"] by simp
  also have "\<dots> = map_of d ++ map_of (rev (kv # other))"
    by (rule ext) (simp add: update_conv' kv map_add_def split: option.splits)
  finally show ?case .
qed

lemma map_of_rev_distinct:
  assumes "distinct (map fst xs)"
  shows "map_of (rev xs) = map_of xs"
proof (rule ext)
  fix k
  have d: "distinct (map fst (rev xs))" by (metis assms distinct_rev rev_map)
  show "map_of (rev xs) k = map_of xs k"
  proof (cases "map_of xs k")
    case None
    then show ?thesis by (metis map_of_eq_None_iff set_rev)
  next
    case (Some v)
    then have "(k, v) \<in> set (rev xs)" by (auto dest: map_of_SomeD)
    with d Some show ?thesis by simp
  qed
qed

lemma distinct_dict_update:
  "distinct (map fst d) \<Longrightarrow> distinct (map fst (dict_update d other))"
  unfolding dict_update_def
  by (induction other arbitrary: d) (auto simp: distinct_update)

lemma distinct_store_header:
  "distinct (map fst d) \<Longrightarrow> distinct (map fst (store_header d header))"
  by (simp add: store_header_def split_beta distinct_update)

lemma distinct_stored_headers:
  "distinct (map fst d) \<Longrightarrow> distinct (map fst (foldl store_header d headers))"
  by (induction headers arbitrary: d) (simp_all add: distinct_store_header)

text \<open>
  Claim C1 says a key given both on the command line and in the header file is bound to the
  value of the command line.  The code stores the command-line headers first (lines 197 to
  201) and applies the headers of the file after them (line 206), so the file wins: with
  \<^verbatim>\<open>-H "X-Bug-Bounty: cli"\<close> and a header file holding the line
  \<^verbatim>\<open>X-Bug-Bounty: file\<close>, the merged mapping binds the key to \<^verbatim>\<open>file\<close>.
\<close>

theorem command_line_header_overridden_counterexample:
  "fst (collect_headers (\<lambda>content. None) [''X-Bug-Bounty: cli''] (Some ''headers.txt'')
          (example_world\<lparr>files := (\<lambda>p. if p = ''headers.txt''
                                         then Some ''X-Bug-Bounty: file'' else None)\<rparr>))
     = [(''X-Bug-Bounty'', ''file'')]"
  by code_simp

text \<open>
  Claim C1, amended.  When a header file is given, the merged header mapping is the mapping
  of the command line overridden by the mapping of the file: a key of the file is bound to
  the value of the file, also when the command line supplies it, and any other key is bound
  as on the command line.  The headers of a request are the default \<^verbatim>\<open>User-Agent\<close>
  overridden by this merged mapping.
\<close>

theorem file_headers_override_command_line:
  assumes "args_header_file = Some filename" and "filename \<noteq> []"
    and "load_headers_from_file json_load w filename = (file_headers, w')"
    and "distinct (map fst file_headers)"
    and "collect_headers json_load args_headers args_header_file w = (custom_headers, w'')"
  shows "map_of custom_headers
           = map_of (foldl store_header [] args_headers) ++ map_of file_headers
    \<and> (\<forall>k v. map_of file_headers k = Some v \<longrightarrow> map_of custom_headers k = Some v)
    \<and> map_of (if custom_headers \<noteq> [] then dict_update default_headers custom_headers
               else default_headers)
        = map_of default_headers ++ map_of (foldl store_header [] args_headers)
            ++ map_of file_headers"
proof -
  let ?cli = "foldl store_header [] args_headers"
  from assms(1,2,3,5) have c: "custom_headers = dict_update ?cli file_headers"
    by (simp add: collect_headers_def)
  have m: "map_of custom_headers = map_of ?cli ++ map_of file_headers"
    unfolding c by (simp add: map_of_dict_update map_of_rev_distinct [OF assms(4)])
  then have o: "\<forall>k v. map_of file_headers k = Some v \<longrightarrow> map_of custom_headers k = Some v"
    by simp
  have "distinct (map fst custom_headers)"
    unfolding c by (simp add: distinct_dict_update distinct_stored_headers)
  then have "map_of (dict_update default_headers custom_headers)
               = map_of default_headers ++ map_of custom_headers"
    by (simp add: map_of_dict_update map_of_rev_distinct)
  then have "map_of (if custom_headers \<noteq> [] then dict_update default_headers custom_headers
               else default_headers)
        = map_of default_headers ++ map_of custom_headers"
    by (cases "custom_headers = []") simp_all
  then have r: "map_of (if custom_headers \<noteq> [] then dict_update default_headers custom_headers
               else default_headers)
        = map_of default_headers ++ map_of ?cli ++ map_of file_headers"
    by (simp only: m map_add_assoc)
  from m o r show ?thesis by blast
qed

theorem file_headers_override_command_line_witness:
  "load_headers_from_file (\<lambda>content. None)
       (example_world\<lparr>files := (\<lambda>p. if p = ''headers.txt''
                                      then Some ''X-Bug-Bounty: file'' else None)\<rparr>) ''headers.txt''
     = ([(''X-Bug-Bounty'', ''file'')],
        example_world\<lparr>files := (\<lambda>p. if p = ''headers.txt''
                                      then Some ''X-Bug-Bounty: file'' else None)\<rparr>)
   \<and> foldl store_header [] [''X-Bug-Bounty: cli'', ''Accept: */*'']
       = [(''X-Bug-Bounty'', ''cli''), (''Accept'', ''*/*'')]
   \<and> fst (collect_headers (\<lambda>content. None) [''X-Bug-Bounty: cli'', ''Accept: */*'']
            (Some ''headers.txt'')
            (example_world\<lparr>files := (\<lambda>p. if p = ''headers.txt''
                                           then Some ''X-Bug-Bounty: file'' else None)\<rparr>))
       = [(''X-Bug-Bounty'', ''file''), (''Accept'', ''*/*'')]
   \<and> map_of [(''X-Bug-Bounty'', ''file''), (''Accept'', ''*/*'')] ''X-Bug-Bounty'' = Some ''file''"
proof -
  let ?w = "example_world\<lparr>files := (\<lambda>p. if p = ''headers.txt''
                                        then Some ''X-Bug-Bounty: file'' else None)\<rparr>"
  let ?args = "[''X-Bug-Bounty: cli'', ''Accept: */*'']"
  have f: "fst (load_headers_from_file (\<lambda>content. None) ?w ''headers.txt'')
             = [(''X-Bug-Bounty'', ''file'')]"
    by code_simp
  have "snd (load_headers_from_file (\<lambda>content. None) ?w ''headers.txt'') = ?w"
    by (simp add: load_headers_from_file_def)
  with f have l: "load_headers_from_file (\<lambda>content. None) ?w ''headers.txt''
                    = ([(''X-Bug-Bounty'', ''file'')], ?w)"
    by (simp add: prod_eq_iff)
  have a: "foldl store_header [] ?args = [(''X-Bug-Bounty'', ''cli''), (''Accept'', ''*/*'')]"
    by code_simp
  have c: "fst (collect_headers (\<lambda>content. None) ?args (Some ''headers.txt'') ?w)
             = [(''X-Bug-Bounty'', ''file''), (''Accept'', ''*/*'')]"
    by code_simp
  then obtain w'' where
    c': "collect_headers (\<lambda>content. None) ?args (Some ''headers.txt'') ?w
           = ([(''X-Bug-Bounty'', ''file''), (''Accept'', ''*/*'')], w'')"
    by (cases "collect_headers (\<lambda>content. None) ?args (Some ''headers.txt'') ?w") simp
  have n: "''headers.txt'' \<noteq> []" by simp
  have d: "distinct (map fst [(''X-Bug-Bounty'', ''file'')])" by simp
  have s: "map_of [(''X-Bug-Bounty'', ''file'')] ''X-Bug-Bounty'' = Some ''file''" by simp
  from file_headers_override_command_line [OF refl n l d c'] s
  have "map_of [(''X-Bug-Bounty'', ''file''), (''Accept'', ''*/*'')] ''X-Bug-Bounty'' = Some ''file''"
    by blast
  with l a c show ?thesis by blast
qed

end
